theory Spec2Isabelle
  imports Complex_Main "HOL-Library.Word" "HOL-Library.Multiset" "HOL-Library.Sublist"
begin

section \<open>Data model\<close>

text \<open>
  The source is a single TypeScript module (a React component \<open>MVP_SPOT\<close> with a few
  top-level helpers).  The parts modelled here are \<open>clamp\<close>, \<open>distanceMeters\<close>,
  \<open>vibeScore\<close>, and the two closures \<open>visibleSpots\<close> and \<open>markerStyle\<close> of the
  component; the component state they read (\<open>mode\<close>, \<open>myMbti\<close>, \<open>spots\<close>, \<open>me\<close>) is
  passed explicitly.

  A JavaScript string is a sequence of UTF-16 code units; \<open>a[i]\<close> is the one-unit string at
  index \<open>i\<close>, or \<open>undefined\<close> when \<open>i\<close> is out of range; \<open>a.charCodeAt(i)\<close> is the
  unit as a number, or \<open>NaN\<close> when \<open>i\<close> is out of range.
\<close>

type_synonym code_unit = "16 word"
type_synonym jsstring = "code_unit list"

text \<open>String literals of the source are written through \<open>utf16\<close> (all of them are ASCII).\<close>

definition utf16 :: "string \<Rightarrow> jsstring" where
  "utf16 cs = map (\<lambda>c. of_nat (of_char c)) cs"

text \<open>\<open>type Mode = "wide" | "near" | "3m"\<close>\<close>

datatype Mode = Wide | Near | M3

text \<open>
  \<open>type Spot = { id: string; lat: number; lng: number; mbti: string }\<close>, and the state
  \<open>me = { lat, lng }\<close>.  Numbers that hold coordinates and distances are modelled as
  real numbers (rounding of IEEE doubles is not modelled); a \<open>NaN\<close> produced by a
  domain error is \<open>None\<close>.
\<close>

record LatLng =
  lat :: real
  lng :: real

record Spot = LatLng +
  ident :: jsstring
  mbti :: jsstring

definition MBTIS :: "jsstring list" where
  "MBTIS = map utf16
     [''INTJ'', ''INTP'', ''ENTJ'', ''ENTP'',
      ''INFJ'', ''INFP'', ''ENFJ'', ''ENFP'',
      ''ISTJ'', ''ISFJ'', ''ESTJ'', ''ESFJ'',
      ''ISTP'', ''ISFP'', ''ESTP'', ''ESFP'']"

section \<open>Numeric helpers\<close>

text \<open>\<open>const clamp = (n, a, b) => Math.max(a, Math.min(b, n))\<close>\<close>

definition clamp :: "real \<Rightarrow> real \<Rightarrow> real \<Rightarrow> real" where
  "clamp n a b = max a (min b n)"

text \<open>
  \<open>Math.sqrt\<close> of a negative number and \<open>Math.asin\<close> outside \<open>[-1, 1]\<close> are \<open>NaN\<close>
  (HOL's \<open>sqrt\<close> and \<open>arcsin\<close> are total and return other values there).
\<close>

definition Math_sqrt :: "real \<Rightarrow> real option" where
  "Math_sqrt x = (if x < 0 then None else Some (sqrt x))"

definition Math_asin :: "real \<Rightarrow> real option" where
  "Math_asin x = (if x < - 1 \<or> 1 < x then None else Some (arcsin x))"

definition toRad :: "real \<Rightarrow> real" where
  "toRad dg = (dg * pi) / 180"

text \<open>
  \<open>distanceMeters(aLat, aLng, bLat, bLng)\<close>: the haversine formula,
  \<open>2 * R * Math.asin(Math.sqrt(x))\<close> with \<open>R = 6371000\<close>.
\<close>

definition haversine_x :: "real \<Rightarrow> real \<Rightarrow> real \<Rightarrow> real \<Rightarrow> real" where
  "haversine_x aLat aLng bLat bLng =
     (let dLat = toRad (bLat - aLat);
          dLng = toRad (bLng - aLng);
          lat1 = toRad aLat;
          lat2 = toRad bLat
      in (sin (dLat / 2))\<^sup>2 + cos lat1 * cos lat2 * (sin (dLng / 2))\<^sup>2)"

definition distanceMeters :: "real \<Rightarrow> real \<Rightarrow> real \<Rightarrow> real \<Rightarrow> real option" where
  "distanceMeters aLat aLng bLat bLng =
     (let R = 6371000;
          x = haversine_x aLat aLng bLat bLng
      in case Math_sqrt x of
           None \<Rightarrow> None
         | Some r \<Rightarrow> (case Math_asin r of None \<Rightarrow> None | Some v \<Rightarrow> Some (2 * R * v)))"

section \<open>vibeScore\<close>

text \<open>\<open>a[i]\<close>: \<open>None\<close> is \<open>undefined\<close>.\<close>

definition char_at :: "jsstring \<Rightarrow> nat \<Rightarrow> code_unit option" where
  "char_at a i = (if i < length a then Some (a ! i) else None)"

text \<open>\<open>a.charCodeAt(i)\<close>: \<open>None\<close> is \<open>NaN\<close>.\<close>

definition charCodeAt :: "jsstring \<Rightarrow> nat \<Rightarrow> nat option" where
  "charCodeAt a i = (if i < length a then Some (unat (a ! i)) else None)"

text \<open>
  \<open>let s = 0; for (let i = 0; i < 4; i++) if (a[i] === b[i]) s += 1; return s;\<close>
  The loop state is \<open>(i, s)\<close>.  Strict equality of two \<open>a[i]\<close> values is equality of
  the options: \<open>undefined === undefined\<close> is true, a string is never \<open>=== undefined\<close>.
\<close>

function vibeScore_loop :: "jsstring \<Rightarrow> jsstring \<Rightarrow> nat \<Rightarrow> nat \<Rightarrow> nat" where
  "vibeScore_loop a b i s =
     (if i < 4
      then vibeScore_loop a b (i + 1) (if char_at a i = char_at b i then s + 1 else s)
      else s)"
  by pat_completeness auto
termination
  by (relation "measure (\<lambda>(a, b, i, s). 4 - i)") auto

declare vibeScore_loop.simps [simp del]

definition vibeScore :: "jsstring \<Rightarrow> jsstring \<Rightarrow> nat" where
  "vibeScore a b = vibeScore_loop a b 0 0"

section \<open>visibleSpots\<close>

text \<open>
  \<open>Array.prototype.sort(cmp)\<close> is a stable sort: an element goes before another when
  \<open>cmp\<close> is negative, and elements that compare equal keep their order.  It is modelled
  as insertion from the right, which puts an element in front of the first element it
  does not have to follow.
\<close>

fun insort_cmp :: "('a \<Rightarrow> 'a \<Rightarrow> int) \<Rightarrow> 'a \<Rightarrow> 'a list \<Rightarrow> 'a list" where
  "insort_cmp cmp x [] = [x]"
| "insort_cmp cmp x (y # ys) =
     (if cmp x y \<le> 0 then x # y # ys else y # insort_cmp cmp x ys)"

definition sort_cmp :: "('a \<Rightarrow> 'a \<Rightarrow> int) \<Rightarrow> 'a list \<Rightarrow> 'a list" where
  "sort_cmp cmp xs = foldr (insort_cmp cmp) xs []"

text \<open>
  The body of the \<open>useMemo\<close> callback.  A scored entry \<open>{ s, score }\<close> is the pair
  \<open>(s, score)\<close>; \<open>slice(0, n)\<close> is \<open>take n\<close>.
\<close>

definition visibleSpots :: "Mode \<Rightarrow> jsstring \<Rightarrow> Spot list \<Rightarrow> Spot list" where
  "visibleSpots mode myMbti spots =
     (if mode = Wide then spots
      else
        let scored = sort_cmp (\<lambda>a b. int (snd b) - int (snd a))
                       (map (\<lambda>s. (s, vibeScore myMbti (mbti s))) spots);
            filtered = map fst (filter (\<lambda>x. 3 \<le> snd x) scored);
            filtered = (if length filtered < 10
                        then map fst (filter (\<lambda>x. 2 \<le> snd x) scored)
                        else filtered)
        in if mode = M3 then take 5 filtered else take 18 filtered)"

section \<open>markerStyle\<close>

text \<open>
  The result \<open>{ opacity, radius, color, d }\<close>.  The field \<open>hue\<close> stands for \<open>color\<close>,
  which is the string \<open>hsl(hue, 82%, 62%)\<close> with the number in place and so is determined by \<open>hue\<close>; a
  \<open>NaN\<close> is \<open>None\<close> and propagates through arithmetic, \<open>Math.min\<close> and \<open>Math.max\<close>.
\<close>

record Style =
  opacity :: "real option"
  radius :: "real option"
  hue :: "nat option"
  d :: "real option"

definition markerStyle :: "Mode \<Rightarrow> LatLng \<Rightarrow> Spot \<Rightarrow> Style" where
  "markerStyle mode me s =
     (let dm = distanceMeters (lat me) (lng me) (lat s) (lng s);
          maxD = (if mode = Wide then 2000 else 600);
          t = map_option (\<lambda>v. 1 - clamp (v / maxD) 0 1) dm;
          op = map_option (\<lambda>v. 0.10 + v * 0.80) t;
          rad = map_option (\<lambda>v. 5 + v * 10) t;
          h = (case charCodeAt (mbti s) 0 of
                 None \<Rightarrow> None
               | Some c0 \<Rightarrow> (case charCodeAt (mbti s) 3 of
                              None \<Rightarrow> None
                            | Some c3 \<Rightarrow> Some ((c0 + c3) mod 360)))
      in \<lparr> opacity = op, radius = rad, hue = h, d = dm \<rparr>)"

section \<open>Auxiliary definitions\<close>

text \<open>
  The ranking that \<open>visibleSpots\<close> computes for a threshold \<open>k\<close>, written with the
  library's stable \<open>sort_key\<close>: the spots of affinity at least \<open>k\<close>, by descending
  affinity.  It is used to state and prove properties; \<open>visibleSpots_ranked\<close> relates it
  to the source's own computation.
\<close>

definition ranked :: "jsstring \<Rightarrow> nat \<Rightarrow> Spot list \<Rightarrow> Spot list" where
  "ranked myMbti k spots =
     sort_key (\<lambda>s. - int (vibeScore myMbti (mbti s)))
       (filter (\<lambda>s. k \<le> vibeScore myMbti (mbti s)) spots)"

text \<open>
  The count that "out-of-range character positions never count as a match" describes:
  the positions below 4 that exist in both strings and hold equal code units.
\<close>

definition in_range_matches :: "jsstring \<Rightarrow> jsstring \<Rightarrow> nat" where
  "in_range_matches a b =
     length (filter (\<lambda>i. i < length a \<and> i < length b \<and> a ! i = b ! i) [0..<4])"

text \<open>Fixtures: a spot at the component's initial location, and a list of thirteen spots.\<close>

definition spot_at :: "string \<Rightarrow> string \<Rightarrow> Spot" where
  "spot_at i t = \<lparr> lat = 37.5665, lng = 126.9780, ident = utf16 i, mbti = utf16 t \<rparr>"

definition example_spots :: "Spot list" where
  "example_spots =
     [spot_at ''s0'' ''ENTJ'', spot_at ''s1'' ''INTJ'', spot_at ''s2'' ''INTP'',
      spot_at ''s3'' ''ESFP'', spot_at ''s4'' ''INFJ'', spot_at ''s5'' ''INTJ'',
      spot_at ''s6'' ''ISTJ'', spot_at ''s7'' ''ENTJ'', spot_at ''s8'' ''INTP'',
      spot_at ''s9'' ''INTJ'', spot_at ''s10'' ''ENTP'', spot_at ''s11'' ''INFJ'',
      spot_at ''s12'' ''ISTJ'']"

text \<open>
  Fixtures: a viewer on the equator and a spot on the same meridian, 300 m to the north
  (its latitude in degrees is \<open>300 / 6371000\<close> radians).
\<close>

definition me0 :: LatLng where
  "me0 = \<lparr> lat = 0, lng = 0 \<rparr>"


section \<open>Properties of vibeScore\<close>

lemma vibeScore_loop_count:
  "i \<le> 4 \<Longrightarrow>
   vibeScore_loop a b i s = s + length (filter (\<lambda>j. char_at a j = char_at b j) [i..<4])"
proof (induction a b i s rule: vibeScore_loop.induct)
  case (1 a b i s)
  show ?case
  proof (cases "i < 4")
    case True
    then have "[i..<4] = i # [i + 1..<4]"
      by (simp add: upt_conv_Cons)
    with True "1.IH" show ?thesis
      by (subst vibeScore_loop.simps) simp
  next
    case False
    with "1.prems" show ?thesis
      by (subst vibeScore_loop.simps) simp
  qed
qed

lemma vibeScore_count:
  "vibeScore a b = length (filter (\<lambda>j. char_at a j = char_at b j) [0..<4])"
  by (simp add: vibeScore_def vibeScore_loop_count)

lemma vibeScore_le_4: "vibeScore a b \<le> 4"
proof -
  have "length (filter (\<lambda>j. char_at a j = char_at b j) [0..<4]) \<le> length [0..<4::nat]"
    by (rule length_filter_le)
  then show ?thesis
    by (simp add: vibeScore_count)
qed

lemma vibeScore_sym: "vibeScore a b = vibeScore b a"
  by (simp add: vibeScore_count eq_commute)

lemma vibeScore_refl: "vibeScore a a = 4"
  by (simp add: vibeScore_count)

lemma upt_0_4: "[0..<4] = [0, 1, 2, 3::nat]"
  by (simp add: upt_rec)

lemma vibeScore_eval:
  "vibeScore a b =
     (if char_at a 0 = char_at b 0 then 1 else 0) + (if char_at a 1 = char_at b 1 then 1 else 0)
   + (if char_at a 2 = char_at b 2 then 1 else 0) + (if char_at a 3 = char_at b 3 then 1 else 0)"
  by (simp add: vibeScore_count upt_0_4)

section \<open>Properties of the sort and of visibleSpots\<close>

lemma insort_cmp_map:
  "insort_cmp cmp (h x) (map h ys) = map h (insort_cmp (\<lambda>a b. cmp (h a) (h b)) x ys)"
  by (induction ys) simp_all

lemma sort_cmp_map:
  "sort_cmp cmp (map h xs) = map h (sort_cmp (\<lambda>a b. cmp (h a) (h b)) xs)"
  by (induction xs) (simp_all add: sort_cmp_def insort_cmp_map)

lemma insort_cmp_score:
  "insort_cmp (\<lambda>a b. int (g b) - int (g a)) x ys = insort_key (\<lambda>s. - int (g s)) x ys"
  by (induction ys) simp_all

lemma sort_cmp_score:
  "sort_cmp (\<lambda>a b. int (g b) - int (g a)) xs = sort_key (\<lambda>s. - int (g s)) xs"
  by (induction xs) (simp_all add: sort_cmp_def insort_cmp_score)

lemma scored_filter:
  "map fst (filter (\<lambda>x. k \<le> snd x)
     (sort_cmp (\<lambda>a b. int (snd b) - int (snd a)) (map (\<lambda>s. (s, vibeScore myMbti (mbti s))) spots)))
   = ranked myMbti k spots"
proof -
  have "sort_cmp (\<lambda>a b. int (snd b) - int (snd a)) (map (\<lambda>s. (s, vibeScore myMbti (mbti s))) spots)
        = map (\<lambda>s. (s, vibeScore myMbti (mbti s)))
            (sort_key (\<lambda>s. - int (vibeScore myMbti (mbti s))) spots)"
    by (subst sort_cmp_map) (simp add: sort_cmp_score)
  then show ?thesis
    by (simp add: filter_map o_def filter_sort ranked_def)
qed

lemma visibleSpots_ranked:
  "mode \<noteq> Wide \<Longrightarrow>
   visibleSpots mode myMbti spots =
     take (if mode = M3 then 5 else 18)
       (ranked myMbti (if length (filter (\<lambda>s. 3 \<le> vibeScore myMbti (mbti s)) spots) < 10 then 2 else 3) spots)"
  by (simp add: visibleSpots_def Let_def scored_filter) (simp add: ranked_def)

lemma set_ranked: "set (ranked myMbti k spots) = {s \<in> set spots. k \<le> vibeScore myMbti (mbti s)}"
  by (simp add: ranked_def)

lemma length_ranked:
  "length (ranked myMbti k spots) = length (filter (\<lambda>s. k \<le> vibeScore myMbti (mbti s)) spots)"
  by (simp add: ranked_def)

lemma sorted_ranked:
  "sorted_wrt (\<lambda>x y. vibeScore myMbti (mbti y) \<le> vibeScore myMbti (mbti x)) (ranked myMbti k spots)"
proof -
  have "sorted (map (\<lambda>s. - int (vibeScore myMbti (mbti s))) (ranked myMbti k spots))"
    unfolding ranked_def by (rule sorted_sort_key)
  then show ?thesis
    by (simp add: sorted_map)
qed

lemma stable_ranked:
  "filter (\<lambda>s. vibeScore myMbti (mbti s) = j) (ranked myMbti k spots) =
     (if k \<le> j then filter (\<lambda>s. vibeScore myMbti (mbti s) = j) spots else [])"
proof -
  have "filter (\<lambda>s. vibeScore myMbti (mbti s) = j) (ranked myMbti k spots) =
        filter (\<lambda>s. - int (vibeScore myMbti (mbti s)) = - int j) (ranked myMbti k spots)"
    by simp
  also have "\<dots> = filter (\<lambda>s. - int (vibeScore myMbti (mbti s)) = - int j)
                     (filter (\<lambda>s. k \<le> vibeScore myMbti (mbti s)) spots)"
    unfolding ranked_def by (rule sort_key_stable)
  also have "\<dots> = (if k \<le> j then filter (\<lambda>s. vibeScore myMbti (mbti s) = j) spots else [])"
    by (auto intro: filter_cong simp: filter_empty_conv)
  finally show ?thesis .
qed

lemma prefix_filter_take: "prefix (filter P (take n xs)) (filter P xs)"
proof -
  have "filter P xs = filter P (take n xs) @ filter P (drop n xs)"
    by (metis append_take_drop_id filter_append)
  then show ?thesis
    by (simp add: prefix_def)
qed

section \<open>Properties of distanceMeters\<close>














lemma clamp_unit: "0 \<le> clamp n 0 1 \<and> clamp n 0 1 \<le> 1"
  by (simp add: clamp_def)

section \<open>Properties of markerStyle\<close>

lemma hue_markerStyle:
  "hue (markerStyle mode me s) =
     (if 3 < length (mbti s)
      then Some ((unat (mbti s ! 0) + unat (mbti s ! 3)) mod 360)
      else None)"
  by (simp add: markerStyle_def Let_def charCodeAt_def)

lemma hue_spot_at:
  "hue (markerStyle mode me (spot_at i t)) =
     (if 3 < length t
      then Some ((unat (utf16 t ! 0) + unat (utf16 t ! 3)) mod 360)
      else None)"
  by (simp add: hue_markerStyle spot_at_def) (simp add: utf16_def)

section \<open>Claims about vibeScore\<close>

text \<open>
  C5: for two tags of four characters, \<open>vibeScore a b\<close> is the number of positions
  \<open>0..3\<close> at which \<open>a\<close> and \<open>b\<close> hold the same character; so it is at most 4, it is
  symmetric, and \<open>vibeScore a a = 4\<close>.
\<close>

theorem vibeScore_counts_agreeing_positions:
  assumes "length a = 4" and "length b = 4"
  shows "vibeScore a b = card {i. i < 4 \<and> a ! i = b ! i}
         \<and> vibeScore a b \<le> 4
         \<and> vibeScore a b = vibeScore b a
         \<and> vibeScore a a = 4"
proof -
  have "filter (\<lambda>j. char_at a j = char_at b j) [0..<4] = filter (\<lambda>j. a ! j = b ! j) [0..<4]"
    using assms by (intro filter_cong) (auto simp: char_at_def)
  then have "vibeScore a b = length (filter (\<lambda>j. a ! j = b ! j) [0..<4])"
    by (simp add: vibeScore_count)
  also have "\<dots> = card {i. i < 4 \<and> a ! i = b ! i}"
    by (simp add: length_filter_conv_card cong: conj_cong)
  finally show ?thesis
    using vibeScore_le_4 [of a b] vibeScore_sym [of a b] vibeScore_refl [of a] by simp
qed

theorem vibeScore_counts_agreeing_positions_witness:
  "length (utf16 ''INTJ'') = 4 \<and> length (utf16 ''ENTJ'') = 4
   \<and> vibeScore (utf16 ''INTJ'') (utf16 ''ENTJ'')
       = card {i. i < 4 \<and> utf16 ''INTJ'' ! i = utf16 ''ENTJ'' ! i}
   \<and> vibeScore (utf16 ''INTJ'') (utf16 ''ENTJ'') \<le> 4
   \<and> vibeScore (utf16 ''INTJ'') (utf16 ''ENTJ'') = vibeScore (utf16 ''ENTJ'') (utf16 ''INTJ'')
   \<and> vibeScore (utf16 ''INTJ'') (utf16 ''INTJ'') = 4
   \<and> vibeScore (utf16 ''INTJ'') (utf16 ''ENTJ'') = 3"
proof -
  have h1: "length (utf16 ''INTJ'') = 4" and h2: "length (utf16 ''ENTJ'') = 4"
    by (simp_all add: utf16_def)
  have "vibeScore (utf16 ''INTJ'') (utf16 ''ENTJ'') = 3"
    by (simp add: vibeScore_eval char_at_def utf16_def)
  with h1 h2 vibeScore_counts_agreeing_positions [OF h1 h2] show ?thesis
    by blast
qed

text \<open>
  C10, as stated: \<open>vibeScore\<close> is total on arbitrary strings with a result in \<open>[0, 4]\<close>,
  and a position that is out of range never counts as a match.  The second part fails:
  a position that is out of range in both strings compares \<open>undefined === undefined\<close> and
  counts.  Two empty strings score 4 although no position holds a character.
\<close>

theorem vibeScore_out_of_range_counterexample:
  "vibeScore [] [] = 4 \<and> in_range_matches [] [] = 0
   \<and> vibeScore (utf16 ''IN'') (utf16 ''IN'') \<noteq> in_range_matches (utf16 ''IN'') (utf16 ''IN'')"
  by (simp add: vibeScore_eval char_at_def in_range_matches_def utf16_def upt_0_4)

text \<open>
  C10, amended: for any two strings \<open>vibeScore\<close> returns a number in \<open>[0, 4]\<close>, namely
  the number of positions \<open>0..3\<close> that either hold equal characters in both strings or
  are out of range in both; a position out of range in exactly one string does not count.
\<close>

theorem vibeScore_total_on_strings:
  "vibeScore a b \<le> 4 \<and>
   vibeScore a b =
     length (filter (\<lambda>i. (i < length a \<and> i < length b \<and> a ! i = b ! i)
                         \<or> (length a \<le> i \<and> length b \<le> i)) [0..<4])"
proof -
  have "(\<lambda>j. char_at a j = char_at b j) =
        (\<lambda>i. (i < length a \<and> i < length b \<and> a ! i = b ! i) \<or> (length a \<le> i \<and> length b \<le> i))"
    by (auto simp: char_at_def fun_eq_iff)
  then show ?thesis
    using vibeScore_le_4 [of a b] by (simp add: vibeScore_count)
qed

section \<open>Claims about visibleSpots\<close>

text \<open>
  C1, as stated: for the viewer tag INTJ and spots tagged INTJ, INTP, ESFP, ENTJ the
  affinities are \<open>[4, 3, 0, 2]\<close>.  They are not: ENTJ agrees with INTJ at the positions
  1, 2 and 3, so its affinity is 3.
\<close>

theorem scenario_affinities_counterexample:
  "map (vibeScore (utf16 ''INTJ'')) (map utf16 [''INTJ'', ''INTP'', ''ESFP'', ''ENTJ''])
     \<noteq> [4, 3, 0, 2]"
  by (simp add: vibeScore_eval char_at_def utf16_def)

text \<open>
  C1, amended: for the viewer tag INTJ and spots tagged INTJ, INTP, ESFP, ENTJ (at one
  location, with any identifiers) the affinities are \<open>[4, 3, 0, 3]\<close>; three spots, fewer
  than 10, reach the threshold 3, so the threshold 2 is used, and in mode \<open>3m\<close> the
  result is the spots tagged INTJ, INTP, ENTJ in this order, without the one tagged ESFP
  and within the cap of 5.
\<close>

theorem scenario_focused_ranking:
  "map (\<lambda>s. vibeScore (utf16 ''INTJ'') (mbti s))
     [\<lparr> lat = la, lng = lo, ident = i1, mbti = utf16 ''INTJ'' \<rparr>,
      \<lparr> lat = la, lng = lo, ident = i2, mbti = utf16 ''INTP'' \<rparr>,
      \<lparr> lat = la, lng = lo, ident = i3, mbti = utf16 ''ESFP'' \<rparr>,
      \<lparr> lat = la, lng = lo, ident = i4, mbti = utf16 ''ENTJ'' \<rparr>] = [4, 3, 0, 3]
   \<and> length (filter (\<lambda>s. 3 \<le> vibeScore (utf16 ''INTJ'') (mbti s))
     [\<lparr> lat = la, lng = lo, ident = i1, mbti = utf16 ''INTJ'' \<rparr>,
      \<lparr> lat = la, lng = lo, ident = i2, mbti = utf16 ''INTP'' \<rparr>,
      \<lparr> lat = la, lng = lo, ident = i3, mbti = utf16 ''ESFP'' \<rparr>,
      \<lparr> lat = la, lng = lo, ident = i4, mbti = utf16 ''ENTJ'' \<rparr>]) = 3
   \<and> visibleSpots M3 (utf16 ''INTJ'')
     [\<lparr> lat = la, lng = lo, ident = i1, mbti = utf16 ''INTJ'' \<rparr>,
      \<lparr> lat = la, lng = lo, ident = i2, mbti = utf16 ''INTP'' \<rparr>,
      \<lparr> lat = la, lng = lo, ident = i3, mbti = utf16 ''ESFP'' \<rparr>,
      \<lparr> lat = la, lng = lo, ident = i4, mbti = utf16 ''ENTJ'' \<rparr>]
     = [\<lparr> lat = la, lng = lo, ident = i1, mbti = utf16 ''INTJ'' \<rparr>,
        \<lparr> lat = la, lng = lo, ident = i2, mbti = utf16 ''INTP'' \<rparr>,
        \<lparr> lat = la, lng = lo, ident = i4, mbti = utf16 ''ENTJ'' \<rparr>]"
  by (simp add: visibleSpots_def sort_cmp_def vibeScore_eval char_at_def utf16_def)

text \<open>
  C2: in the modes \<open>near\<close> and \<open>3m\<close> the result has at most 18 and at most 5 spots;
  every returned spot is an input spot of affinity at least 2; and when at least 10 input
  spots have affinity at least 3, no returned spot has affinity 2.
\<close>

theorem visibleSpots_bounds:
  assumes "mode = Near \<or> mode = M3"
  shows "(mode = Near \<longrightarrow> length (visibleSpots mode myMbti spots) \<le> 18)
       \<and> (mode = M3 \<longrightarrow> length (visibleSpots mode myMbti spots) \<le> 5)
       \<and> (\<forall>s \<in> set (visibleSpots mode myMbti spots).
             s \<in> set spots \<and> 2 \<le> vibeScore myMbti (mbti s))
       \<and> (10 \<le> length (filter (\<lambda>s. 3 \<le> vibeScore myMbti (mbti s)) spots) \<longrightarrow>
             (\<forall>s \<in> set (visibleSpots mode myMbti spots). vibeScore myMbti (mbti s) \<noteq> 2))"
proof -
  from assms have nw: "mode \<noteq> Wide" by auto
  let ?r = "visibleSpots mode myMbti spots"
  have len: "length ?r \<le> (if mode = M3 then 5 else 18)"
    by (simp add: visibleSpots_ranked [OF nw])
  have mem: "s \<in> set spots \<and> 2 \<le> vibeScore myMbti (mbti s)" if "s \<in> set ?r" for s
  proof -
    from that obtain k where "s \<in> set (ranked myMbti k spots)" and "2 \<le> (k::nat)"
      by (auto simp: visibleSpots_ranked [OF nw] dest: in_set_takeD split: if_splits)
    then show ?thesis
      by (auto simp: set_ranked)
  qed
  have strict: "3 \<le> vibeScore myMbti (mbti s)"
    if "10 \<le> length (filter (\<lambda>s. 3 \<le> vibeScore myMbti (mbti s)) spots)" and "s \<in> set ?r" for s
  proof -
    from that have "s \<in> set (ranked myMbti 3 spots)"
      by (auto simp: visibleSpots_ranked [OF nw] dest: in_set_takeD split: if_splits)
    then show ?thesis
      by (simp add: set_ranked)
  qed
  show ?thesis
  proof (intro conjI impI ballI)
    assume "mode = Near"
    with len show "length ?r \<le> 18" by simp
  next
    assume "mode = M3"
    with len show "length ?r \<le> 5" by simp
  next
    fix s assume "s \<in> set ?r"
    then show "s \<in> set spots" by (simp add: mem)
  next
    fix s assume "s \<in> set ?r"
    then show "2 \<le> vibeScore myMbti (mbti s)" by (simp add: mem)
  next
    fix s
    assume "10 \<le> length (filter (\<lambda>s. 3 \<le> vibeScore myMbti (mbti s)) spots)" and "s \<in> set ?r"
    then have "3 \<le> vibeScore myMbti (mbti s)" by (rule strict)
    then show "vibeScore myMbti (mbti s) \<noteq> 2" by simp
  qed
qed

theorem visibleSpots_bounds_witness:
  "(Near = Near \<or> Near = M3)
   \<and> 10 \<le> length (filter (\<lambda>s. 3 \<le> vibeScore (utf16 ''INTJ'') (mbti s)) example_spots)
   \<and> length (visibleSpots Near (utf16 ''INTJ'') example_spots) \<le> 18
   \<and> set (visibleSpots Near (utf16 ''INTJ'') example_spots)
       \<subseteq> {s. s \<in> set example_spots \<and> 2 \<le> vibeScore (utf16 ''INTJ'') (mbti s)
                \<and> vibeScore (utf16 ''INTJ'') (mbti s) \<noteq> 2}
   \<and> spot_at ''s10'' ''ENTP'' \<in> set example_spots
   \<and> vibeScore (utf16 ''INTJ'') (mbti (spot_at ''s10'' ''ENTP'')) = 2"
proof -
  have h: "Near = Near \<or> Near = M3"
    by simp
  have many: "10 \<le> length (filter (\<lambda>s. 3 \<le> vibeScore (utf16 ''INTJ'') (mbti s)) example_spots)"
    by (simp add: example_spots_def spot_at_def vibeScore_eval char_at_def utf16_def)
  have two: "spot_at ''s10'' ''ENTP'' \<in> set example_spots
             \<and> vibeScore (utf16 ''INTJ'') (mbti (spot_at ''s10'' ''ENTP'')) = 2"
    by (simp add: example_spots_def spot_at_def vibeScore_eval char_at_def utf16_def)
  from visibleSpots_bounds [OF h, of "utf16 ''INTJ''" example_spots] many two show ?thesis
    by blast
qed

text \<open>
  C3: in the modes \<open>near\<close> and \<open>3m\<close> the result is ordered by descending affinity, and
  for every affinity value the returned spots of that affinity are an initial part of
  the input spots of that affinity, in the input's order (the sort is stable).
\<close>

theorem visibleSpots_order:
  assumes "mode = Near \<or> mode = M3"
  shows "sorted_wrt (\<lambda>x y. vibeScore myMbti (mbti y) \<le> vibeScore myMbti (mbti x))
           (visibleSpots mode myMbti spots)
       \<and> (\<forall>j. prefix (filter (\<lambda>s. vibeScore myMbti (mbti s) = j) (visibleSpots mode myMbti spots))
                     (filter (\<lambda>s. vibeScore myMbti (mbti s) = j) spots))"
proof -
  from assms have nw: "mode \<noteq> Wide" by auto
  obtain n k where r: "visibleSpots mode myMbti spots = take n (ranked myMbti k spots)"
    using visibleSpots_ranked [OF nw] by blast
  have "sorted_wrt (\<lambda>x y. vibeScore myMbti (mbti y) \<le> vibeScore myMbti (mbti x))
          (take n (ranked myMbti k spots))"
    by (rule sorted_wrt_take) (rule sorted_ranked)
  moreover have "prefix (filter (\<lambda>s. vibeScore myMbti (mbti s) = j) (take n (ranked myMbti k spots)))
                     (filter (\<lambda>s. vibeScore myMbti (mbti s) = j) spots)" for j
  proof -
    have "prefix (filter (\<lambda>s. vibeScore myMbti (mbti s) = j) (take n (ranked myMbti k spots)))
                 (filter (\<lambda>s. vibeScore myMbti (mbti s) = j) (ranked myMbti k spots))"
      by (rule prefix_filter_take)
    also have "prefix (filter (\<lambda>s. vibeScore myMbti (mbti s) = j) (ranked myMbti k spots))
                 (filter (\<lambda>s. vibeScore myMbti (mbti s) = j) spots)"
      by (simp add: stable_ranked)
    finally show ?thesis .
  qed
  ultimately show ?thesis
    unfolding r by blast
qed

theorem visibleSpots_order_witness:
  "(Near = Near \<or> Near = M3)
   \<and> sorted_wrt (\<lambda>x y. vibeScore (utf16 ''INTJ'') (mbti y) \<le> vibeScore (utf16 ''INTJ'') (mbti x))
        (visibleSpots Near (utf16 ''INTJ'') example_spots)
   \<and> (\<forall>j. prefix (filter (\<lambda>s. vibeScore (utf16 ''INTJ'') (mbti s) = j)
                      (visibleSpots Near (utf16 ''INTJ'') example_spots))
                   (filter (\<lambda>s. vibeScore (utf16 ''INTJ'') (mbti s) = j) example_spots))
   \<and> map ident (visibleSpots Near (utf16 ''INTJ'') example_spots)
       = map utf16 [''s1'', ''s5'', ''s9'', ''s0'', ''s2'', ''s4'', ''s6'', ''s7'', ''s8'',
                    ''s11'', ''s12'']"
proof -
  have h: "Near = Near \<or> Near = M3"
    by simp
  have r: "map ident (visibleSpots Near (utf16 ''INTJ'') example_spots)
       = map utf16 [''s1'', ''s5'', ''s9'', ''s0'', ''s2'', ''s4'', ''s6'', ''s7'', ''s8'',
                    ''s11'', ''s12'']"
    by (simp add: visibleSpots_def sort_cmp_def example_spots_def spot_at_def vibeScore_eval
        char_at_def utf16_def)
  from visibleSpots_order [OF h, of "utf16 ''INTJ''" example_spots] r show ?thesis
    by blast
qed

text \<open>
  C4: in the mode \<open>wide\<close> the result is the input list itself, whatever the viewer tag:
  nothing is filtered, cut or reordered, so the multiset of spots is the same.
\<close>

theorem visibleSpots_wide:
  "visibleSpots Wide myMbti spots = spots
   \<and> mset (visibleSpots Wide myMbti spots) = mset spots
   \<and> visibleSpots Wide myMbti spots = visibleSpots Wide otherMbti spots"
  by (simp add: visibleSpots_def)

section \<open>Claims about distanceMeters\<close>



section \<open>Claims about markerStyle\<close>



text \<open>
  C8: the hue of a spot's style depends on the spot's tag alone: two spots with the same
  tag get the same hue whatever the mode, the viewer location and the spots' positions;
  for a tag of at least four characters it is the sum of the character codes at the
  positions 0 and 3 modulo 360, a natural number below 360.
\<close>

theorem hue_of_tag_alone:
  "(mbti s = mbti s' \<longrightarrow> hue (markerStyle mode me s) = hue (markerStyle mode' me' s'))
   \<and> (4 \<le> length (mbti s) \<longrightarrow>
        (\<exists>h. hue (markerStyle mode me s) = Some h \<and> h < 360
            \<and> h = (unat (mbti s ! 0) + unat (mbti s ! 3)) mod 360))"
  by (simp add: hue_markerStyle)

theorem hue_of_tag_alone_witness:
  "mbti (spot_at ''s1'' ''INTJ'') = mbti (spot_at ''s5'' ''INTJ'')
   \<and> 4 \<le> length (mbti (spot_at ''s1'' ''INTJ''))
   \<and> hue (markerStyle Wide \<lparr> lat = 0, lng = 0 \<rparr> (spot_at ''s1'' ''INTJ''))
       = hue (markerStyle Near \<lparr> lat = 1, lng = 2 \<rparr> (spot_at ''s5'' ''INTJ''))
   \<and> (\<exists>h. hue (markerStyle Wide \<lparr> lat = 0, lng = 0 \<rparr> (spot_at ''s1'' ''INTJ'')) = Some h \<and> h < 360
           \<and> h = (unat (mbti (spot_at ''s1'' ''INTJ'') ! 0) + unat (mbti (spot_at ''s1'' ''INTJ'') ! 3)) mod 360)
   \<and> hue (markerStyle Wide \<lparr> lat = 0, lng = 0 \<rparr> (spot_at ''s1'' ''INTJ'')) = Some 147"
proof -
  have h1: "mbti (spot_at ''s1'' ''INTJ'') = mbti (spot_at ''s5'' ''INTJ'')"
    and h2: "4 \<le> length (mbti (spot_at ''s1'' ''INTJ''))"
    by (simp_all add: spot_at_def utf16_def)
  have v: "hue (markerStyle Wide \<lparr> lat = 0, lng = 0 \<rparr> (spot_at ''s1'' ''INTJ'')) = Some 147"
    by (simp add: hue_spot_at utf16_def)
  from hue_of_tag_alone [of "spot_at ''s1'' ''INTJ''" "spot_at ''s5'' ''INTJ''" Wide "\<lparr> lat = 0, lng = 0 \<rparr>"
        Near "\<lparr> lat = 1, lng = 2 \<rparr>"] h1 h2 v
  show ?thesis
    by blast
qed

text \<open>
  C9: two tags that agree at the positions 0 and 3 get the same hue, whatever they hold
  at the positions 1 and 2; over the 16 tags of \<open>MBTIS\<close> exactly the four hues 143, 147,
  149 and 153 occur.
\<close>

theorem hue_positions_0_and_3:
  "(char_at (mbti s) 0 = char_at (mbti s') 0 \<and> char_at (mbti s) 3 = char_at (mbti s') 3
      \<longrightarrow> hue (markerStyle mode me s) = hue (markerStyle mode' me' s'))
   \<and> (\<lambda>t. hue (markerStyle mode me (s\<lparr> mbti := t \<rparr>))) ` set MBTIS
       = {Some 143, Some 147, Some 149, Some 153}
   \<and> card ((\<lambda>t. hue (markerStyle mode me (s\<lparr> mbti := t \<rparr>))) ` set MBTIS) = 4
   \<and> length MBTIS = 16 \<and> distinct MBTIS"
proof -
  have a: "char_at (mbti s) 0 = char_at (mbti s') 0 \<and> char_at (mbti s) 3 = char_at (mbti s') 3
      \<longrightarrow> hue (markerStyle mode me s) = hue (markerStyle mode' me' s')"
    by (auto simp: hue_markerStyle char_at_def split: if_splits)
  have b: "(\<lambda>t. hue (markerStyle mode me (s\<lparr> mbti := t \<rparr>))) ` set MBTIS
       = {Some 143, Some 147, Some 149, Some 153}"
    by (simp add: hue_markerStyle MBTIS_def utf16_def) blast
  have c: "card {Some 143, Some 147, Some 149, Some (153::nat)} = 4"
    by simp
  have d: "length MBTIS = 16 \<and> distinct MBTIS"
    by (simp add: MBTIS_def utf16_def)
  from a b c d show ?thesis
    by (simp only:) 
qed

theorem hue_positions_0_and_3_witness:
  "(char_at (mbti (spot_at ''s1'' ''INTJ'')) 0 = char_at (mbti (spot_at ''s9'' ''ISFJ'')) 0
     \<and> char_at (mbti (spot_at ''s1'' ''INTJ'')) 3 = char_at (mbti (spot_at ''s9'' ''ISFJ'')) 3)
   \<and> mbti (spot_at ''s1'' ''INTJ'') \<noteq> mbti (spot_at ''s9'' ''ISFJ'')
   \<and> hue (markerStyle Near me0 (spot_at ''s1'' ''INTJ''))
       = hue (markerStyle Wide me0 (spot_at ''s9'' ''ISFJ''))
   \<and> hue (markerStyle Near me0 (spot_at ''s1'' ''INTJ'')) = Some 147"
proof -
  have h: "char_at (mbti (spot_at ''s1'' ''INTJ'')) 0 = char_at (mbti (spot_at ''s9'' ''ISFJ'')) 0
     \<and> char_at (mbti (spot_at ''s1'' ''INTJ'')) 3 = char_at (mbti (spot_at ''s9'' ''ISFJ'')) 3"
    by (simp add: spot_at_def utf16_def char_at_def)
  have n: "mbti (spot_at ''s1'' ''INTJ'') \<noteq> mbti (spot_at ''s9'' ''ISFJ'')"
    by (simp add: spot_at_def utf16_def)
  have v: "hue (markerStyle Near me0 (spot_at ''s1'' ''INTJ'')) = Some 147"
    by (simp add: hue_spot_at utf16_def)
  from hue_positions_0_and_3 [of "spot_at ''s1'' ''INTJ''" "spot_at ''s9'' ''ISFJ''" Near me0 Wide me0]
    h n v
  show ?thesis
    by blast
qed

end
